theory Spec2Isabelle
  imports Main
begin

section \<open>The chess client of \<open>main.py\<close>\<close>

text \<open>
  \<open>main.py\<close> is one module: three globals (\<open>sio\<close>, \<open>chessboard\<close>,
  \<open>player_role\<close>), seven event handlers, the move-turn function \<open>make_moves\<close> and
  the start-up statements. The handlers mutate the globals, print to the console and emit
  events; here they take the state and return the new one. The rules library
  (\<open>chess\<close>) is not part of the repository: its operations are a parameter of every
  function that calls them, so each theorem below holds for whatever the library does
  unless it states an assumption about it.
\<close>

subsection \<open>Python values, exceptions and the operations of the payload expression\<close>

text \<open>
  The values a decoded event payload can hold. Numbers are integers only; a dictionary is
  its list of entries (keys distinct), looked up by key.
\<close>

datatype pyval =
    PNone
  | PBool bool
  | PInt int
  | PStr string
  | PList "pyval list"
  | PDict "(string \<times> pyval) list"

text \<open>The exceptions that occur, all subclasses of Python's \<open>Exception\<close>.\<close>

datatype py_error =
    KeyError string
  | TypeError
  | IndexError
  | ValueError
  | AssertionError
  | AttributeError
  | InvalidMoveError
  | IllegalMoveError

text \<open>\<open>v[key]\<close> for a string key: only a dictionary can be subscripted by a string.\<close>

fun subscript :: "pyval \<Rightarrow> string \<Rightarrow> py_error + pyval" where
  "subscript (PDict kvs) key =
     (case map_of kvs key of None \<Rightarrow> Inl (KeyError key) | Some v \<Rightarrow> Inr v)"
| "subscript _ key = Inl TypeError"

text \<open>\<open>a + b\<close>: concatenation of two strings or two lists, addition of numbers (a
  boolean counts as 0 or 1), \<open>TypeError\<close> otherwise.\<close>

fun py_add :: "pyval \<Rightarrow> pyval \<Rightarrow> py_error + pyval" where
  "py_add (PStr a) (PStr b) = Inr (PStr (a @ b))"
| "py_add (PList a) (PList b) = Inr (PList (a @ b))"
| "py_add (PInt a) (PInt b) = Inr (PInt (a + b))"
| "py_add (PInt a) (PBool b) = Inr (PInt (a + (if b then 1 else 0)))"
| "py_add (PBool a) (PInt b) = Inr (PInt ((if a then 1 else 0) + b))"
| "py_add (PBool a) (PBool b) = Inr (PInt ((if a then 1 else 0) + (if b then 1 else 0)))"
| "py_add _ _ = Inl TypeError"

text \<open>\<open>random.choice(seq)\<close>: \<open>IndexError\<close> on an empty sequence, otherwise the
  element at the index the random source draws below the length (\<open>r\<close> is the draw).\<close>

definition random_choice :: "'a list \<Rightarrow> nat \<Rightarrow> py_error + 'a" where
  "random_choice xs r = (if xs = [] then Inl IndexError else Inr (xs ! (r mod length xs)))"

subsection \<open>The rules library, as a parameter\<close>

text \<open>
  The calls the module makes on \<open>chess\<close>: \<open>chess.Board()\<close>, \<open>set_fen\<close>,
  \<open>turn\<close>, \<open>chess.Move.from_uci\<close>, \<open>push\<close>, \<open>is_game_over\<close>,
  \<open>legal_moves\<close> and \<open>uci\<close>. The two methods that mutate the board return the
  board as they leave it and the exception they raise, if any, so a library that has
  changed the board before it raises is covered.
\<close>

record ('b, 'm) chess =
  Board :: 'b
  set_fen :: "pyval \<Rightarrow> 'b \<Rightarrow> 'b \<times> py_error option"
  turn :: "'b \<Rightarrow> bool"
  from_uci :: "pyval \<Rightarrow> py_error + 'm"
  push :: "'m \<Rightarrow> 'b \<Rightarrow> 'b \<times> py_error option"
  is_game_over :: "'b \<Rightarrow> bool"
  legal_moves :: "'b \<Rightarrow> 'm list"
  uci :: "'m \<Rightarrow> string"

subsection \<open>The session client and the module's state\<close>

text \<open>The server-pushed events of the spec's handler table.\<close>

datatype event =
    Connection_established
  | Connection_failed
  | Disconnected
  | Role_assigned
  | Spectator_assigned
  | Board_state_pushed
  | Opponent_move_pushed

text \<open>The handler functions the module defines.\<close>

datatype callback =
    Connect
  | Connect_error
  | Disconnect
  | On_player_role
  | On_spectator
  | On_boardstate
  | On_move

text \<open>
  The session client (\<open>socketio\<close>) is not part of the repository either. Modelled from
  the spec: a client holds the table of registered handlers, the endpoint it is connected
  to and the events emitted so far; \<open>socketio.Client()\<close> is the client with nothing
  registered, \<open>connect\<close> records the endpoint (the connection is taken to succeed) and
  \<open>emit\<close> sends one named event with its payload.
\<close>

record client =
  handlers :: "event \<rightharpoonup> callback"
  endpoint :: "string option"
  sent :: "(string \<times> pyval) list"

definition Client :: client where
  "Client = \<lparr>handlers = Map.empty, endpoint = None, sent = []\<rparr>"

text \<open>Modelled from the spec: \<open>on(eventName, handler)\<close> registers one handler per
  named event, the last registration winning. The module never calls it.\<close>

definition client_on :: "event \<Rightarrow> callback \<Rightarrow> client \<Rightarrow> client" where
  "client_on ev h c = c\<lparr>handlers := (handlers c)(ev \<mapsto> h)\<rparr>"

definition client_connect :: "string \<Rightarrow> client \<Rightarrow> client" where
  "client_connect url c = c\<lparr>endpoint := Some url\<rparr>"

definition client_emit :: "string \<Rightarrow> pyval \<Rightarrow> client \<Rightarrow> client" where
  "client_emit name payload c = c\<lparr>sent := sent c @ [(name, payload)]\<rparr>"

text \<open>One argument of a \<open>print\<close> call: a value or a caught exception.\<close>

datatype printed = Val pyval | Exn py_error

record 'b state =
  sio :: client
  chessboard :: 'b
  player_role :: pyval
  console :: "printed list list"

definition py_print :: "printed list \<Rightarrow> 'b state \<Rightarrow> 'b state" where
  "py_print args st = st\<lparr>console := console st @ [args]\<rparr>"

text \<open>The non-ASCII marks that open five of the module's messages, as UTF-8 bytes.\<close>

definition check_mark :: string where
  "check_mark = [CHR 0xE2, CHR 0x9C, CHR 0x85]"

definition cross_mark :: string where
  "cross_mark = [CHR 0xE2, CHR 0x9D, CHR 0x8C]"

definition plug_mark :: string where
  "plug_mark = [CHR 0xF0, CHR 0x9F, CHR 0x94, CHR 0x8C]"

definition glass_mark :: string where
  "glass_mark = [CHR 0xF0, CHR 0x9F, CHR 0x94, CHR 0x8D]"

definition arrow_mark :: string where
  "arrow_mark = [CHR 0xE2, CHR 0x9E, CHR 0xA1, CHR 0xEF, CHR 0xB8, CHR 0x8F]"

subsection \<open>The handlers\<close>

definition connect :: "'b state \<Rightarrow> 'b state" where
  "connect st = py_print [Val (PStr (check_mark @ '' Connected to server!''))] st"

definition connect_error :: "pyval \<Rightarrow> 'b state \<Rightarrow> 'b state" where
  "connect_error data st =
     py_print [Val (PStr (cross_mark @ '' Connection failed:'')), Val data] st"

definition disconnect :: "'b state \<Rightarrow> 'b state" where
  "disconnect st = py_print [Val (PStr (plug_mark @ '' Disconnected from server''))] st"

definition on_player_role :: "pyval \<Rightarrow> 'b state \<Rightarrow> 'b state" where
  "on_player_role role st =
     py_print [Val (PStr ''I am playing as''),
               Val (PStr (if role = PStr ''w'' then ''White'' else ''Black''))]
       (st\<lparr>player_role := role\<rparr>)"

definition on_spectator :: "'b state \<Rightarrow> 'b state" where
  "on_spectator st = py_print [Val (PStr ''I am a spectator'')] st"

text \<open>
  \<open>make_moves\<close>: the terminal test first; then the choice among the legal moves, the
  push on the local board, the emitted event and the log line, in that order. An
  exception of the choice or of the push leaves the function at that point.
\<close>

definition move_payload :: "string \<Rightarrow> pyval" where
  "move_payload u =
     PDict [(''from'', PStr (take 2 u)),
            (''to'', PStr (take 2 (drop 2 u))),
            (''promotion'', PStr ''q'')]"

definition make_moves ::
  "('b, 'm) chess \<Rightarrow> nat \<Rightarrow> 'b state \<Rightarrow> 'b state \<times> py_error option" where
  "make_moves lib r st =
     (if is_game_over lib (chessboard st)
      then (py_print [Val (PStr ''Game Over'')] st, None)
      else
        (case random_choice (legal_moves lib (chessboard st)) r of
           Inl e \<Rightarrow> (st, Some e)
         | Inr m \<Rightarrow>
             (case push lib m (chessboard st) of
                (b, Some e) \<Rightarrow> (st\<lparr>chessboard := b\<rparr>, Some e)
              | (b, None) \<Rightarrow>
                  (py_print [Val (PStr ''Bot played:''), Val (PStr (uci lib m))]
                     (st\<lparr>chessboard := b,
                         sio := client_emit ''move'' (move_payload (uci lib m)) (sio st)\<rparr>),
                   None))))"

text \<open>
  \<open>on_boardstate\<close> has no \<open>try\<close>: an exception of \<open>set_fen\<close> leaves the handler
  before anything is printed.
\<close>

definition on_boardstate ::
  "('b, 'm) chess \<Rightarrow> nat \<Rightarrow> pyval \<Rightarrow> 'b state \<Rightarrow> 'b state \<times> py_error option" where
  "on_boardstate lib r fen st =
     (case set_fen lib fen (chessboard st) of
        (b, Some e) \<Rightarrow> (st\<lparr>chessboard := b\<rparr>, Some e)
      | (b, None) \<Rightarrow>
          (let st1 = py_print [Val (PStr ''Board updated:''), Val fen] (st\<lparr>chessboard := b\<rparr>)
           in if PStr (if turn lib b then ''w'' else ''b'') = player_role st1
              then make_moves lib r st1
              else (st1, None)))"

text \<open>The argument of \<open>push\<close> in \<open>on_move\<close>:
  \<open>chess.Move.from_uci(move["from"] + move["to"])\<close>, evaluated left to right.\<close>

definition parse_move :: "('b, 'm) chess \<Rightarrow> pyval \<Rightarrow> py_error + 'm" where
  "parse_move lib move =
     (case subscript move ''from'' of
        Inl e \<Rightarrow> Inl e
      | Inr f \<Rightarrow>
          (case subscript move ''to'' of
             Inl e \<Rightarrow> Inl e
           | Inr t \<Rightarrow>
               (case py_add f t of
                  Inl e \<Rightarrow> Inl e
                | Inr s \<Rightarrow> from_uci lib s)))"

text \<open>\<open>on_move\<close>: everything inside \<open>try\<close>, every \<open>Exception\<close> caught and
  printed. The handler restores nothing: after a failed push the board is as the push
  left it.\<close>

definition on_move :: "('b, 'm) chess \<Rightarrow> pyval \<Rightarrow> 'b state \<Rightarrow> 'b state" where
  "on_move lib move st =
     (case parse_move lib move of
        Inl e \<Rightarrow> py_print [Val (PStr ''Invalid move received:''), Val move, Exn e] st
      | Inr m \<Rightarrow>
          (case push lib m (chessboard st) of
             (b, Some e) \<Rightarrow>
               py_print [Val (PStr ''Invalid move received:''), Val move, Exn e]
                 (st\<lparr>chessboard := b\<rparr>)
           | (b, None) \<Rightarrow>
               py_print [Val (PStr ''Opponent moved:''), Val move] (st\<lparr>chessboard := b\<rparr>)))"

subsection \<open>Start-up and the delivery of a pushed event\<close>

text \<open>
  The module's top-level statements up to \<open>sio.wait()\<close>: the three globals, the two
  messages around \<open>sio.connect\<close>. No statement registers a handler.
\<close>

definition main_module :: "('b, 'm) chess \<Rightarrow> 'b state" where
  "main_module lib =
     (let st0 = \<lparr>sio = Client, chessboard = Board lib, player_role = PNone, console = []\<rparr>;
          st1 = py_print [Val (PStr (glass_mark @ '' Trying to connect to server...''))] st0;
          st2 = st1\<lparr>sio := client_connect ''http://localhost:3000'' (sio st1)\<rparr>
      in py_print [Val (PStr (arrow_mark @ '' Python reached after connect() call''))] st2)"

text \<open>Calling one of the module's handler functions with the payload of an event; three of
  them take no argument.\<close>

definition call ::
  "('b, 'm) chess \<Rightarrow> nat \<Rightarrow> callback \<Rightarrow> pyval \<Rightarrow> 'b state \<Rightarrow> 'b state \<times> py_error option"
  where
  "call lib r h payload st =
     (case h of
        Connect \<Rightarrow> (connect st, None)
      | Connect_error \<Rightarrow> (connect_error payload st, None)
      | Disconnect \<Rightarrow> (disconnect st, None)
      | On_player_role \<Rightarrow> (on_player_role payload st, None)
      | On_spectator \<Rightarrow> (on_spectator st, None)
      | On_boardstate \<Rightarrow> on_boardstate lib r payload st
      | On_move \<Rightarrow> (on_move lib payload st, None))"

text \<open>Modelled from the spec: while the client waits, a pushed event runs the handler
  registered under its name; an event with no registered handler runs nothing.\<close>

definition deliver ::
  "('b, 'm) chess \<Rightarrow> nat \<Rightarrow> event \<Rightarrow> pyval \<Rightarrow> 'b state \<Rightarrow> 'b state \<times> py_error option"
  where
  "deliver lib r ev payload st =
     (case handlers (sio st) ev of
        None \<Rightarrow> (st, None)
      | Some h \<Rightarrow> call lib r h payload st)"

subsection \<open>A scripted rules library for concrete runs\<close>

text \<open>
  To run the handlers on concrete inputs the library parameter needs a value. \<open>fixture\<close>
  is a scripted stand-in that knows two positions, the start position and the position
  after fool's mate, and answers on them as \<open>chess\<close> does for the calls made below:
  \<^item> \<open>set_fen\<close> accepts the two texts and raises \<open>ValueError\<close> on any other string,
    leaving the board as it was;
  \<^item> \<open>from_uci\<close> accepts a string of two square names, with or without a fifth
    character, and raises \<open>InvalidMoveError\<close> on any other string;
  \<^item> \<open>push\<close> records the move on the stack and does not test its legality; it fails its
    assertion, after the move is recorded, when the move starts from an empty square
    (in the start position, ranks 3 to 6), and hands the turn over otherwise;
  \<^item> the start position has its twenty moves, every other position none, and the game is
    over where there is no move.
\<close>

record fboard =
  loaded :: string
  stack :: "string list"
  white :: bool

definition start_fen :: string where
  "start_fen = ''rnbqkbnr/pppppppp/8/8/8/8/PPPPPPPP/RNBQKBNR w KQkq - 0 1''"

definition mate_fen :: string where
  "mate_fen = ''rnb1kbnr/pppp1ppp/8/4p3/6Pq/5P2/PPPPP2P/RNBQKBNR w KQkq - 1 3''"

definition opening_moves :: "string list" where
  "opening_moves =
     [''g1h3'', ''g1f3'', ''b1c3'', ''b1a3'',
      ''h2h3'', ''g2g3'', ''f2f3'', ''e2e3'', ''d2d3'', ''c2c3'', ''b2b3'', ''a2a3'',
      ''h2h4'', ''g2g4'', ''f2f4'', ''e2e4'', ''d2d4'', ''c2c4'', ''b2b4'', ''a2a4'']"

definition fixture_set_fen :: "pyval \<Rightarrow> fboard \<Rightarrow> fboard \<times> py_error option" where
  "fixture_set_fen v b =
     (case v of
        PStr t \<Rightarrow>
          (if t = start_fen \<or> t = mate_fen
           then (\<lparr>loaded = t, stack = [], white = True\<rparr>, None)
           else (b, Some ValueError))
      | _ \<Rightarrow> (b, Some AttributeError))"

definition square_name :: "string \<Rightarrow> bool" where
  "square_name s =
     (case s of
        [f, k] \<Rightarrow> f \<in> set ''abcdefgh'' \<and> k \<in> set ''12345678''
      | _ \<Rightarrow> False)"

definition fixture_from_uci :: "pyval \<Rightarrow> py_error + string" where
  "fixture_from_uci v =
     (case v of
        PStr s \<Rightarrow>
          (if (length s = 4 \<or> length s = 5) \<and> square_name (take 2 s)
              \<and> square_name (take 2 (drop 2 s))
           then Inr s
           else Inl InvalidMoveError)
      | _ \<Rightarrow> Inl TypeError)"

definition vacant_origin :: "fboard \<Rightarrow> string \<Rightarrow> bool" where
  "vacant_origin b m =
     (loaded b = start_fen \<and> stack b = [] \<and> take 1 (drop 1 m) \<in> set [''3'', ''4'', ''5'', ''6''])"

definition fixture_push :: "string \<Rightarrow> fboard \<Rightarrow> fboard \<times> py_error option" where
  "fixture_push m b =
     (if vacant_origin b m
      then (b\<lparr>stack := stack b @ [m]\<rparr>, Some AssertionError)
      else (b\<lparr>stack := stack b @ [m], white := \<not> white b\<rparr>, None))"

definition fixture_legal_moves :: "fboard \<Rightarrow> string list" where
  "fixture_legal_moves b = (if loaded b = start_fen \<and> stack b = [] then opening_moves else [])"

definition fixture :: "(fboard, string) chess" where
  "fixture =
     \<lparr>Board = \<lparr>loaded = start_fen, stack = [], white = True\<rparr>,
      set_fen = fixture_set_fen,
      turn = white,
      from_uci = fixture_from_uci,
      push = fixture_push,
      is_game_over = (\<lambda>b. fixture_legal_moves b = []),
      legal_moves = fixture_legal_moves,
      uci = (\<lambda>m. m)\<rparr>"

lemmas fixture_simps =
  fixture_def fixture_set_fen_def square_name_def fixture_from_uci_def fixture_push_def
  vacant_origin_def
  fixture_legal_moves_def opening_moves_def start_fen_def mate_fen_def

lemmas module_simps =
  main_module_def Let_def py_print_def client_connect_def client_emit_def Client_def

section \<open>Properties of the handlers\<close>

subsection \<open>Auxiliary facts\<close>

lemma random_choice_member:
  "xs \<noteq> [] \<Longrightarrow> \<exists>m. random_choice xs r = Inr m \<and> m \<in> set xs"
  by (simp add: random_choice_def)

lemma make_moves_player_role: "player_role (fst (make_moves lib r st)) = player_role st"
  by (simp add: make_moves_def py_print_def split: sum.splits prod.splits option.splits)

text \<open>The branch of \<open>make_moves\<close> that a library without a move for a position it does
  not call terminal would reach.\<close>

lemma make_moves_empty_choice:
  "\<not> is_game_over lib (chessboard st) \<Longrightarrow> legal_moves lib (chessboard st) = [] \<Longrightarrow>
   make_moves lib r st = (st, Some IndexError)"
  by (simp add: make_moves_def random_choice_def)

text \<open>A call of \<open>make_moves\<close> always shows: it prints, or it raises.\<close>

lemma make_moves_acts: "make_moves lib r st \<noteq> (st, None)"
proof
  assume "make_moves lib r st = (st, None)"
  then have "console (fst (make_moves lib r st)) = console st
             \<and> snd (make_moves lib r st) = None"
    by simp
  then show False
    by (simp add: make_moves_def py_print_def
          split: if_splits sum.splits prod.splits option.splits)
qed

text \<open>\<open>on_move\<close> never reads the legal-move list.\<close>

lemma parse_move_legal_moves:
  "parse_move (lib\<lparr>legal_moves := f\<rparr>) move = parse_move lib move"
  by (simp add: parse_move_def split: sum.splits)

lemma on_move_legal_moves:
  "on_move (lib\<lparr>legal_moves := f\<rparr>) move st = on_move lib move st"
  by (simp add: on_move_def parse_move_legal_moves split: sum.splits prod.splits option.splits)

text \<open>Had the module registered a handler, a pushed event would run it.\<close>

lemma deliver_registered:
  "deliver lib r ev payload (st\<lparr>sio := client_on ev h (sio st)\<rparr>)
     = call lib r h payload (st\<lparr>sio := client_on ev h (sio st)\<rparr>)"
  by (simp add: deliver_def client_on_def)

subsection \<open>The opponent-move handler and illegal moves\<close>

text \<open>
  C1 (the code departs from the claim). \<open>on_move\<close> does not test the move against the
  legal-move set: whatever \<open>from_uci\<close> parses and \<open>push\<close> accepts is played on the local
  board and reported as the opponent's move, and the handler's result does not depend on
  \<open>legal_moves\<close> at all. An illegal move is rejected only if \<open>push\<close> itself raises.
\<close>

theorem on_move_applies_unchecked:
  assumes "parse_move lib move = Inr m" and "push lib m (chessboard st) = (b, None)"
  shows "on_move lib move st =
           st\<lparr>chessboard := b,
              console := console st @ [[Val (PStr ''Opponent moved:''), Val move]]\<rparr>
       \<and> on_move (lib\<lparr>legal_moves := f\<rparr>) move st = on_move lib move st"
proof
  show "on_move lib move st =
           st\<lparr>chessboard := b,
              console := console st @ [[Val (PStr ''Opponent moved:''), Val move]]\<rparr>"
    using assms by (simp add: on_move_def py_print_def)
  show "on_move (lib\<lparr>legal_moves := f\<rparr>) move st = on_move lib move st"
    by (rule on_move_legal_moves)
qed

text \<open>
  C1, at the start position with the payload \<open>{from: e2, to: e5}\<close>: the move is not
  among the twenty legal moves, and the handler plays it and prints
  \<open>Opponent moved:\<close>.
\<close>

theorem on_move_applies_unchecked_witness:
  "''e2e5'' \<notin> set (legal_moves fixture (chessboard (main_module fixture)))
   \<and> parse_move fixture (PDict [(''from'', PStr ''e2''), (''to'', PStr ''e5'')]) = Inr ''e2e5''
   \<and> on_move fixture (PDict [(''from'', PStr ''e2''), (''to'', PStr ''e5'')]) (main_module fixture)
       = (main_module fixture)
           \<lparr>chessboard := \<lparr>loaded = start_fen, stack = [''e2e5''], white = False\<rparr>,
            console := console (main_module fixture) @
              [[Val (PStr ''Opponent moved:''),
                Val (PDict [(''from'', PStr ''e2''), (''to'', PStr ''e5'')])]]\<rparr>"
  using on_move_applies_unchecked[of fixture
          "PDict [(''from'', PStr ''e2''), (''to'', PStr ''e5'')]" "''e2e5''"
          "main_module fixture" "\<lparr>loaded = start_fen, stack = [''e2e5''], white = False\<rparr>"]
  by (simp add: parse_move_def fixture_simps module_simps)

subsection \<open>The board-state handler and a text that does not parse\<close>

text \<open>
  C2 (the code departs from the claim). \<open>on_boardstate\<close> has no \<open>except\<close> clause.
  When \<open>set_fen\<close> raises, the exception leaves the handler: nothing is printed, nothing
  is emitted, \<open>make_moves\<close> is not run, and the board is as \<open>set_fen\<close> left it.
\<close>

theorem on_boardstate_raises:
  assumes "set_fen lib fen (chessboard st) = (b, Some e)"
  shows "on_boardstate lib r fen st = (st\<lparr>chessboard := b\<rparr>, Some e)
       \<and> console (fst (on_boardstate lib r fen st)) = console st
       \<and> sio (fst (on_boardstate lib r fen st)) = sio st"
  using assms by (simp add: on_boardstate_def)

text \<open>C2, at the empty text: the \<open>ValueError\<close> of \<open>set_fen\<close> comes out of the
  handler and the state is untouched.\<close>

theorem on_boardstate_raises_witness:
  "set_fen fixture (PStr '''') (chessboard (main_module fixture))
     = (chessboard (main_module fixture), Some ValueError)
   \<and> on_boardstate fixture 0 (PStr '''') (main_module fixture)
       = (main_module fixture, Some ValueError)"
  using on_boardstate_raises[of fixture "PStr ''''" "main_module fixture"
          "chessboard (main_module fixture)" ValueError 0]
  by (simp add: fixture_simps module_simps)

subsection \<open>The move-turn sequence\<close>

text \<open>
  C3. \<open>make_moves\<close> on any state. If the position is terminal, it prints
  \<open>Game Over\<close> and returns: the board and the client are as they were, so no move is
  applied and nothing is emitted. If the position is not terminal and has a legal move,
  it chooses a member \<open>m\<close> of the legal-move list and pushes it on the local board. When
  the push returns, the board is the pushed one and exactly one event has been added to
  the emitted events: \<open>move\<close> with \<open>from\<close> the first two characters of the move's
  UCI text, \<open>to\<close> the next two and \<open>promotion\<close> always \<open>q\<close>; for a UCI text made of a
  two-character origin square, a two-character destination square and a rest, these are
  the origin and the destination. When the push raises, the exception leaves the function
  with the board as the push left it and nothing emitted: the push comes before the emit.
\<close>

theorem make_moves_sequence:
  "(is_game_over lib (chessboard st) \<longrightarrow>
      make_moves lib r st = (st\<lparr>console := console st @ [[Val (PStr ''Game Over'')]]\<rparr>, None))
   \<and> (\<not> is_game_over lib (chessboard st) \<and> legal_moves lib (chessboard st) \<noteq> [] \<longrightarrow>
        (\<exists>m b e. m \<in> set (legal_moves lib (chessboard st))
           \<and> push lib m (chessboard st) = (b, e)
           \<and> (e = None \<longrightarrow>
                (\<exists>st'. make_moves lib r st = (st', None)
                   \<and> chessboard st' = b
                   \<and> sent (sio st') = sent (sio st) @
                        [(''move'', PDict [(''from'', PStr (take 2 (uci lib m))),
                                           (''to'', PStr (take 2 (drop 2 (uci lib m)))),
                                           (''promotion'', PStr ''q'')])]
                   \<and> (\<forall>orig dest rest.
                         uci lib m = orig @ dest @ rest \<and> length orig = 2 \<and> length dest = 2 \<longrightarrow>
                         take 2 (uci lib m) = orig \<and> take 2 (drop 2 (uci lib m)) = dest)))
           \<and> (e \<noteq> None \<longrightarrow>
                make_moves lib r st = (st\<lparr>chessboard := b\<rparr>, e))))"
proof (intro conjI impI)
  assume "is_game_over lib (chessboard st)"
  then show "make_moves lib r st =
      (st\<lparr>console := console st @ [[Val (PStr ''Game Over'')]]\<rparr>, None)"
    by (simp add: make_moves_def py_print_def)
next
  assume a: "\<not> is_game_over lib (chessboard st) \<and> legal_moves lib (chessboard st) \<noteq> []"
  then obtain m where m: "random_choice (legal_moves lib (chessboard st)) r = Inr m"
    and mem: "m \<in> set (legal_moves lib (chessboard st))"
    using random_choice_member by blast
  obtain b e where p: "push lib m (chessboard st) = (b, e)"
    by (cases "push lib m (chessboard st)")
  have ok: "e = None \<longrightarrow>
      (\<exists>st'. make_moves lib r st = (st', None)
         \<and> chessboard st' = b
         \<and> sent (sio st') = sent (sio st) @
              [(''move'', PDict [(''from'', PStr (take 2 (uci lib m))),
                                 (''to'', PStr (take 2 (drop 2 (uci lib m)))),
                                 (''promotion'', PStr ''q'')])]
         \<and> (\<forall>orig dest rest.
               uci lib m = orig @ dest @ rest \<and> length orig = 2 \<and> length dest = 2 \<longrightarrow>
               take 2 (uci lib m) = orig \<and> take 2 (drop 2 (uci lib m)) = dest))"
    using a m p by (auto simp add: make_moves_def py_print_def client_emit_def move_payload_def)
  have bad: "e \<noteq> None \<longrightarrow> make_moves lib r st = (st\<lparr>chessboard := b\<rparr>, e)"
    using a m p by (auto simp add: make_moves_def)
  show "\<exists>m b e. m \<in> set (legal_moves lib (chessboard st))
           \<and> push lib m (chessboard st) = (b, e)
           \<and> (e = None \<longrightarrow>
                (\<exists>st'. make_moves lib r st = (st', None)
                   \<and> chessboard st' = b
                   \<and> sent (sio st') = sent (sio st) @
                        [(''move'', PDict [(''from'', PStr (take 2 (uci lib m))),
                                           (''to'', PStr (take 2 (drop 2 (uci lib m)))),
                                           (''promotion'', PStr ''q'')])]
                   \<and> (\<forall>orig dest rest.
                         uci lib m = orig @ dest @ rest \<and> length orig = 2 \<and> length dest = 2 \<longrightarrow>
                         take 2 (uci lib m) = orig \<and> take 2 (drop 2 (uci lib m)) = dest)))
           \<and> (e \<noteq> None \<longrightarrow>
                make_moves lib r st = (st\<lparr>chessboard := b\<rparr>, e))"
    using mem p ok bad by blast
qed

text \<open>
  C3, run on the scripted library. At the start position with the draw 15 the chosen move
  is e2e4: it is pushed and the one emitted event is \<open>{from: e2, to: e4, promotion: q}\<close>.
  At the position after fool's mate the function prints \<open>Game Over\<close> and does nothing
  else.
\<close>

theorem make_moves_sequence_witness:
  "\<not> is_game_over fixture (chessboard (main_module fixture))
   \<and> legal_moves fixture (chessboard (main_module fixture)) \<noteq> []
   \<and> chessboard (fst (make_moves fixture 15 (main_module fixture)))
       = \<lparr>loaded = start_fen, stack = [''e2e4''], white = False\<rparr>
   \<and> sent (sio (fst (make_moves fixture 15 (main_module fixture))))
       = [(''move'', PDict [(''from'', PStr ''e2''), (''to'', PStr ''e4''),
                            (''promotion'', PStr ''q'')])]
   \<and> is_game_over fixture \<lparr>loaded = mate_fen, stack = [], white = True\<rparr>
   \<and> make_moves fixture 15
        ((main_module fixture)\<lparr>chessboard := \<lparr>loaded = mate_fen, stack = [], white = True\<rparr>\<rparr>)
       = ((main_module fixture)
            \<lparr>chessboard := \<lparr>loaded = mate_fen, stack = [], white = True\<rparr>,
             console := console (main_module fixture) @ [[Val (PStr ''Game Over'')]]\<rparr>, None)"
  using make_moves_sequence[of fixture "main_module fixture" 15]
    make_moves_sequence[of fixture
      "(main_module fixture)\<lparr>chessboard := \<lparr>loaded = mate_fen, stack = [], white = True\<rparr>\<rparr>" 15]
  by (simp add: make_moves_def random_choice_def move_payload_def fixture_simps module_simps)

subsection \<open>The board-state handler and the turn\<close>

text \<open>
  C4. When \<open>set_fen\<close> accepts the text, \<open>on_boardstate\<close> replaces the board by the
  decoded one and prints \<open>Board updated:\<close>; from that state it runs \<open>make_moves\<close>
  exactly when the side to move of the new board, as \<open>w\<close> or \<open>b\<close>, equals
  \<open>player_role\<close>. When it differs, the handler returns that state: the board is
  updated, no move is chosen and nothing is emitted. (\<open>make_moves\<close> always prints or
  raises, so its result is never that state itself.)
\<close>

theorem on_boardstate_turn_gate:
  assumes "set_fen lib fen (chessboard st) = (b, None)"
  shows "(on_boardstate lib r fen st =
            make_moves lib r
              (st\<lparr>chessboard := b,
                  console := console st @ [[Val (PStr ''Board updated:''), Val fen]]\<rparr>))
         = (PStr (if turn lib b then ''w'' else ''b'') = player_role st)
       \<and> (PStr (if turn lib b then ''w'' else ''b'') \<noteq> player_role st \<longrightarrow>
            on_boardstate lib r fen st =
              (st\<lparr>chessboard := b,
                  console := console st @ [[Val (PStr ''Board updated:''), Val fen]]\<rparr>, None))"
  using assms make_moves_acts[of lib r "st\<lparr>chessboard := b,
                  console := console st @ [[Val (PStr ''Board updated:''), Val fen]]\<rparr>"]
  by (auto simp add: on_boardstate_def py_print_def Let_def)

text \<open>
  C4, run on the scripted library with the start position's text, where White is to move:
  a client playing Black updates its board and emits nothing, a client playing White
  emits its one move.
\<close>

theorem on_boardstate_turn_gate_witness:
  "set_fen fixture (PStr start_fen) (chessboard (on_player_role (PStr ''b'') (main_module fixture)))
     = (\<lparr>loaded = start_fen, stack = [], white = True\<rparr>, None)
   \<and> chessboard (fst (on_boardstate fixture 15 (PStr start_fen)
                        (on_player_role (PStr ''b'') (main_module fixture))))
       = \<lparr>loaded = start_fen, stack = [], white = True\<rparr>
   \<and> sent (sio (fst (on_boardstate fixture 15 (PStr start_fen)
                       (on_player_role (PStr ''b'') (main_module fixture))))) = []
   \<and> sent (sio (fst (on_boardstate fixture 15 (PStr start_fen)
                       (on_player_role (PStr ''w'') (main_module fixture)))))
       = [(''move'', PDict [(''from'', PStr ''e2''), (''to'', PStr ''e4''),
                            (''promotion'', PStr ''q'')])]"
  using on_boardstate_turn_gate[of fixture "PStr start_fen"
          "on_player_role (PStr ''b'') (main_module fixture)"
          "\<lparr>loaded = start_fen, stack = [], white = True\<rparr>" 15]
  by (simp add: on_boardstate_def on_player_role_def make_moves_def random_choice_def
        move_payload_def fixture_simps module_simps)

subsection \<open>Start-up registers no handler\<close>

text \<open>
  C5 (the code departs from the claim). After the start-up statements the client's handler
  table is empty: for every event of the table there is no registered handler, and an
  event the server pushes then runs none of the module's functions and leaves the state
  as it is.
\<close>

theorem main_module_registers_nothing:
  "handlers (sio (main_module lib)) ev = None
   \<and> deliver lib r ev payload (main_module lib) = (main_module lib, None)"
  by (simp add: deliver_def module_simps)

subsection \<open>The choice is made from a non-empty list\<close>

text \<open>
  C7. Assume of the library what the claim states of it: a position that is not terminal
  has a legal move. Then \<open>make_moves\<close> never chooses from an empty list. On a terminal
  position it prints \<open>Game Over\<close> and returns before the choice: the result is the same
  whatever the legal-move list and the draw are. On any other position the choice is made
  from the non-empty legal-move list and returns a member \<open>m\<close> of it, and the run goes
  on to the push of that move: the exception \<open>make_moves\<close> ends with, if any, is the one
  of \<open>push\<close> on \<open>m\<close>, and its board is the board that push leaves. So the
  \<open>IndexError\<close> of \<open>random.choice\<close> on an empty sequence does not arise.
\<close>

theorem make_moves_choice_nonempty:
  assumes "\<forall>b. \<not> is_game_over lib b \<longrightarrow> legal_moves lib b \<noteq> []"
  shows "(is_game_over lib (chessboard st) \<longrightarrow>
            make_moves lib r st =
              (st\<lparr>console := console st @ [[Val (PStr ''Game Over'')]]\<rparr>, None)
            \<and> make_moves (lib\<lparr>legal_moves := f\<rparr>) r' st = make_moves lib r st)
       \<and> (\<not> is_game_over lib (chessboard st) \<longrightarrow>
            (\<exists>m. m \<in> set (legal_moves lib (chessboard st))
                \<and> random_choice (legal_moves lib (chessboard st)) r = Inr m
                \<and> snd (make_moves lib r st) = snd (push lib m (chessboard st))
                \<and> chessboard (fst (make_moves lib r st)) = fst (push lib m (chessboard st))))"
proof (intro conjI impI)
  assume t: "is_game_over lib (chessboard st)"
  then show "make_moves lib r st =
      (st\<lparr>console := console st @ [[Val (PStr ''Game Over'')]]\<rparr>, None)"
    by (simp add: make_moves_def py_print_def)
  from t show "make_moves (lib\<lparr>legal_moves := f\<rparr>) r' st = make_moves lib r st"
    by (simp add: make_moves_def)
next
  assume n: "\<not> is_game_over lib (chessboard st)"
  with assms have "legal_moves lib (chessboard st) \<noteq> []"
    by blast
  then obtain m where m: "random_choice (legal_moves lib (chessboard st)) r = Inr m"
    and mem: "m \<in> set (legal_moves lib (chessboard st))"
    using random_choice_member by blast
  have res: "snd (make_moves lib r st) = snd (push lib m (chessboard st))
             \<and> chessboard (fst (make_moves lib r st)) = fst (push lib m (chessboard st))"
    using n m
    by (simp add: make_moves_def py_print_def split: prod.splits option.splits)
  show "\<exists>m. m \<in> set (legal_moves lib (chessboard st))
                \<and> random_choice (legal_moves lib (chessboard st)) r = Inr m
                \<and> snd (make_moves lib r st) = snd (push lib m (chessboard st))
                \<and> chessboard (fst (make_moves lib r st)) = fst (push lib m (chessboard st))"
    using m mem res by blast
qed

text \<open>
  C7, on the scripted library, whose terminal positions are those with no move. At the
  start position the draw 15 chooses e2e4 and \<open>make_moves\<close> ends without an exception
  on the board after that push; at the position after fool's mate the result does not
  depend on the legal-move list or the draw.
\<close>

theorem make_moves_choice_nonempty_witness:
  "\<not> is_game_over fixture (chessboard (main_module fixture))
   \<and> random_choice (legal_moves fixture (chessboard (main_module fixture))) 15 = Inr ''e2e4''
   \<and> snd (make_moves fixture 15 (main_module fixture)) = None
   \<and> chessboard (fst (make_moves fixture 15 (main_module fixture)))
       = \<lparr>loaded = start_fen, stack = [''e2e4''], white = False\<rparr>
   \<and> is_game_over fixture \<lparr>loaded = mate_fen, stack = [], white = True\<rparr>
   \<and> make_moves (fixture\<lparr>legal_moves := \<lambda>b. []\<rparr>) 0
        ((main_module fixture)\<lparr>chessboard := \<lparr>loaded = mate_fen, stack = [], white = True\<rparr>\<rparr>)
       = make_moves fixture 15
           ((main_module fixture)\<lparr>chessboard := \<lparr>loaded = mate_fen, stack = [], white = True\<rparr>\<rparr>)"
proof -
  have contract: "\<forall>b. \<not> is_game_over fixture b \<longrightarrow> legal_moves fixture b \<noteq> []"
    by (simp add: fixture_def)
  have start: "\<not> is_game_over fixture (chessboard (main_module fixture))"
    by (simp add: fixture_simps module_simps)
  have mate: "is_game_over fixture \<lparr>loaded = mate_fen, stack = [], white = True\<rparr>"
    by (simp add: fixture_simps)
  have chosen: "random_choice (legal_moves fixture (chessboard (main_module fixture))) 15
                  = Inr ''e2e4''"
    by (simp add: random_choice_def fixture_simps module_simps)
  have pushed: "push fixture ''e2e4'' (chessboard (main_module fixture))
                  = (\<lparr>loaded = start_fen, stack = [''e2e4''], white = False\<rparr>, None)"
    by (simp add: fixture_simps module_simps)
  from make_moves_choice_nonempty[OF contract, of "main_module fixture" 15] start chosen
  obtain m where "random_choice (legal_moves fixture (chessboard (main_module fixture))) 15 = Inr m"
    and run: "snd (make_moves fixture 15 (main_module fixture))
                = snd (push fixture m (chessboard (main_module fixture)))
              \<and> chessboard (fst (make_moves fixture 15 (main_module fixture)))
                = fst (push fixture m (chessboard (main_module fixture)))"
    by blast
  with chosen have "m = ''e2e4''"
    by simp
  with run pushed have ran: "snd (make_moves fixture 15 (main_module fixture)) = None
     \<and> chessboard (fst (make_moves fixture 15 (main_module fixture)))
         = \<lparr>loaded = start_fen, stack = [''e2e4''], white = False\<rparr>"
    by simp
  show ?thesis
    using start mate chosen ran
      make_moves_choice_nonempty[OF contract,
        of "(main_module fixture)\<lparr>chessboard := \<lparr>loaded = mate_fen, stack = [], white = True\<rparr>\<rparr>"
           15 "\<lambda>b. []" 0]
    by simp
qed

subsection \<open>The role\<close>

text \<open>
  C9, as stated, fails: \<open>on_player_role\<close> assigns unconditionally. After a first role
  event has made the client White, a second role event makes it Black.
\<close>

theorem role_reassigned_counterexample:
  "player_role (on_player_role (PStr ''w'') (main_module fixture)) = PStr ''w''
   \<and> player_role (on_player_role (PStr ''b'') (on_player_role (PStr ''w'') (main_module fixture)))
       \<noteq> player_role (on_player_role (PStr ''w'') (main_module fixture))"
  by (simp add: on_player_role_def py_print_def)

text \<open>
  C9, amended. The role is changed by the role-assignment handler only: every call of
  \<open>on_player_role\<close> sets it to the payload of that event, whatever it was before, and
  every other handler, and \<open>make_moves\<close>, leaves it as it was.
\<close>

theorem player_role_assignment:
  "player_role (on_player_role role st) = role
   \<and> player_role (connect st) = player_role st
   \<and> player_role (connect_error payload st) = player_role st
   \<and> player_role (disconnect st) = player_role st
   \<and> player_role (on_spectator st) = player_role st
   \<and> player_role (fst (on_boardstate lib r fen st)) = player_role st
   \<and> player_role (on_move lib payload st) = player_role st
   \<and> player_role (fst (make_moves lib r st)) = player_role st"
proof -
  have bs: "player_role (fst (on_boardstate lib r fen st)) = player_role st"
    by (simp add: on_boardstate_def Let_def py_print_def make_moves_player_role
          split: prod.splits option.splits)
  have mv: "player_role (on_move lib payload st) = player_role st"
    by (simp add: on_move_def py_print_def split: sum.splits prod.splits option.splits)
  show ?thesis
    using bs mv
    by (simp add: on_player_role_def connect_def connect_error_def disconnect_def
          on_spectator_def py_print_def make_moves_player_role)
qed

subsection \<open>The opponent-move handler on any payload\<close>

text \<open>
  C10, as stated, fails: not every failure comes before the board is changed. The push is
  the change, the handler restores nothing after it, and a push may raise after it has
  begun. With the payload \<open>{from: e4, to: e5}\<close> at the start position the move starts
  from an empty square: the push records it and fails its assertion, the handler prints
  \<open>Invalid move received:\<close>, and the board is no longer the one before the event.
\<close>

theorem on_move_failed_push_counterexample:
  "chessboard (on_move fixture (PDict [(''from'', PStr ''e4''), (''to'', PStr ''e5'')])
                 (main_module fixture))
     = \<lparr>loaded = start_fen, stack = [''e4e5''], white = True\<rparr>
   \<and> chessboard (main_module fixture) = \<lparr>loaded = start_fen, stack = [], white = True\<rparr>
   \<and> last (console (on_move fixture (PDict [(''from'', PStr ''e4''), (''to'', PStr ''e5'')])
                      (main_module fixture)))
       = [Val (PStr ''Invalid move received:''),
          Val (PDict [(''from'', PStr ''e4''), (''to'', PStr ''e5'')]), Exn AssertionError]"
  by (simp add: on_move_def parse_move_def fixture_simps module_simps)

text \<open>
  C10, amended. For every payload \<open>on_move\<close> returns (its \<open>except\<close> clause catches every
  exception), having printed exactly one line and emitted nothing. When the failure arises
  while the move is read from the payload (the payload is not a dictionary, the key
  \<open>from\<close> or \<open>to\<close> is missing, the two values cannot be added, \<open>from_uci\<close> rejects the
  string), it comes before the push: the handler prints \<open>Invalid move received:\<close> with
  the exception and the state is otherwise exactly as before the event. When the push
  itself raises, the handler prints the same line and keeps the board as the push left it.
\<close>

theorem on_move_failure_modes:
  "(\<exists>line. console (on_move lib move st) = console st @ [line])
   \<and> sio (on_move lib move st) = sio st
   \<and> (\<forall>e. parse_move lib move = Inl e \<longrightarrow>
         on_move lib move st =
           st\<lparr>console := console st @
                 [[Val (PStr ''Invalid move received:''), Val move, Exn e]]\<rparr>)
   \<and> (\<forall>m b e. parse_move lib move = Inr m \<and> push lib m (chessboard st) = (b, Some e) \<longrightarrow>
         on_move lib move st =
           st\<lparr>chessboard := b,
              console := console st @
                 [[Val (PStr ''Invalid move received:''), Val move, Exn e]]\<rparr>)
   \<and> ((\<forall>kvs. move \<noteq> PDict kvs) \<longrightarrow> parse_move lib move = Inl TypeError)
   \<and> (\<forall>kvs. move = PDict kvs \<and> map_of kvs ''from'' = None \<longrightarrow>
         parse_move lib move = Inl (KeyError ''from''))
   \<and> (\<forall>kvs f. move = PDict kvs \<and> map_of kvs ''from'' = Some f \<and> map_of kvs ''to'' = None \<longrightarrow>
         parse_move lib move = Inl (KeyError ''to''))
   \<and> (\<forall>f t e. subscript move ''from'' = Inr f \<and> subscript move ''to'' = Inr t
          \<and> py_add f t = Inl e \<longrightarrow>
         parse_move lib move = Inl e)
   \<and> (\<forall>f t s e. subscript move ''from'' = Inr f \<and> subscript move ''to'' = Inr t
          \<and> py_add f t = Inr s \<and> from_uci lib s = Inl e \<longrightarrow>
         parse_move lib move = Inl e)"
proof -
  have line: "\<exists>line. console (on_move lib move st) = console st @ [line]"
    by (simp add: on_move_def py_print_def split: sum.splits prod.splits option.splits)
  have client: "sio (on_move lib move st) = sio st"
    by (simp add: on_move_def py_print_def split: sum.splits prod.splits option.splits)
  have early: "\<forall>e. parse_move lib move = Inl e \<longrightarrow>
         on_move lib move st =
           st\<lparr>console := console st @
                 [[Val (PStr ''Invalid move received:''), Val move, Exn e]]\<rparr>"
    by (simp add: on_move_def py_print_def)
  have late: "\<forall>m b e. parse_move lib move = Inr m \<and> push lib m (chessboard st) = (b, Some e) \<longrightarrow>
         on_move lib move st =
           st\<lparr>chessboard := b,
              console := console st @
                 [[Val (PStr ''Invalid move received:''), Val move, Exn e]]\<rparr>"
    by (simp add: on_move_def py_print_def)
  have nodict: "(\<forall>kvs. move \<noteq> PDict kvs) \<longrightarrow> parse_move lib move = Inl TypeError"
    by (cases move) (simp_all add: parse_move_def)
  have nofrom: "\<forall>kvs. move = PDict kvs \<and> map_of kvs ''from'' = None \<longrightarrow>
         parse_move lib move = Inl (KeyError ''from'')"
    by (simp add: parse_move_def)
  have noto: "\<forall>kvs f. move = PDict kvs \<and> map_of kvs ''from'' = Some f \<and> map_of kvs ''to'' = None \<longrightarrow>
         parse_move lib move = Inl (KeyError ''to'')"
    by (simp add: parse_move_def)
  have noadd: "\<forall>f t e. subscript move ''from'' = Inr f \<and> subscript move ''to'' = Inr t
          \<and> py_add f t = Inl e \<longrightarrow>
         parse_move lib move = Inl e"
    by (simp add: parse_move_def)
  have badsq: "\<forall>f t s e. subscript move ''from'' = Inr f \<and> subscript move ''to'' = Inr t
          \<and> py_add f t = Inr s \<and> from_uci lib s = Inl e \<longrightarrow>
         parse_move lib move = Inl e"
    by (simp add: parse_move_def)
  show ?thesis
    using line client early late nodict nofrom noto noadd badsq by blast
qed

text \<open>
  C10, amended, run on the scripted library at the start position: a payload without the
  key \<open>to\<close> raises \<open>KeyError\<close>, and a payload whose \<open>from\<close> is no square raises
  \<open>InvalidMoveError\<close>, both before the push; the handler prints the line and changes
  nothing else.
\<close>

theorem on_move_failure_modes_witness:
  "parse_move fixture (PDict [(''from'', PStr ''e4'')]) = Inl (KeyError ''to'')
   \<and> on_move fixture (PDict [(''from'', PStr ''e4'')]) (main_module fixture)
       = (main_module fixture)
           \<lparr>console := console (main_module fixture) @
              [[Val (PStr ''Invalid move received:''), Val (PDict [(''from'', PStr ''e4'')]),
                Exn (KeyError ''to'')]]\<rparr>
   \<and> parse_move fixture (PDict [(''from'', PStr ''z9''), (''to'', PStr ''e4'')])
       = Inl InvalidMoveError
   \<and> on_move fixture (PDict [(''from'', PStr ''z9''), (''to'', PStr ''e4'')])
        (main_module fixture)
       = (main_module fixture)
           \<lparr>console := console (main_module fixture) @
              [[Val (PStr ''Invalid move received:''),
                Val (PDict [(''from'', PStr ''z9''), (''to'', PStr ''e4'')]),
                Exn InvalidMoveError]]\<rparr>"
  using on_move_failure_modes[of fixture "PDict [(''from'', PStr ''e4'')]" "main_module fixture"]
    on_move_failure_modes[of fixture "PDict [(''from'', PStr ''z9''), (''to'', PStr ''e4'')]"
      "main_module fixture"]
  by (simp add: parse_move_def fixture_simps)

text \<open>
  Two properties of the rules library itself are not statements about this module and are
  not treated here: that the push of a legal move returns and hands the turn to the
  opponent, and that the start position survives a round trip through its text. The module
  only calls \<open>push\<close> and \<open>set_fen\<close>, and never serializes a position.
\<close>

end
